theory Spec2Isabelle
  imports Main
begin

section \<open>The host document\<close>

text \<open>
  A shallow embedding of \<^verbatim>\<open>src/code.ts\<close> (class \<^verbatim>\<open>StickyCode\<close>). Objects that the
  TypeScript mutates in place live in an explicit \<open>world\<close>: the notebook and its cells, the
  \<^verbatim>\<open>StickyCode\<close> objects (addressed by their index in \<open>mirrors\<close>), the panels, the floating
  windows and the pending timers of the browser. A method of \<^verbatim>\<open>StickyCode\<close> takes the
  reference \<open>r\<close> of \<^verbatim>\<open>this\<close> and the world, and returns the world it leaves behind.

  A cell is identified by the identity of its DOM node (the source compares
  \<^verbatim>\<open>args.cell.node !== cd.originalCell.node\<close>); here that identity is a natural number.
\<close>

record ICodeCellModel =
  model_executionCount :: "nat option"
  isDirty :: bool

text \<open>
  \<open>has_editorNode\<close> and \<open>has_outputNode\<close> say whether
  \<^verbatim>\<open>querySelector('.jp-CodeMirrorEditor')\<close> and \<^verbatim>\<open>querySelector('.jp-OutputArea')\<close> find an
  element in the cell's node.
\<close>

record CodeCell =
  model :: ICodeCellModel
  inputHidden :: bool
  outputHidden :: bool
  has_editorNode :: bool
  has_outputNode :: bool

text \<open>
  \<open>runLog\<close> records every call of \<^verbatim>\<open>NotebookActions.run\<close>: the active cell index at the
  moment of the call, which is the cell the host runs.
\<close>

record Notebook =
  widgets :: "nat list"
  activeCellIndex :: int
  runLog :: "int list"

section \<open>The mirror, its panel and its floating window\<close>

text \<open>The enum \<^verbatim>\<open>ContentType\<close> of \<^verbatim>\<open>content.ts\<close>; \<^verbatim>\<open>code.ts\<close> names \<^verbatim>\<open>ContentType.Code\<close>.\<close>

datatype ContentType = Code | Markdown

datatype elem = HeaderNode nat | ContentNode nat | CodeNode nat | CodeToolbar nat | DropzoneNode nat

record Element =
  innerText :: string
  classList :: "string set"

text \<open>
  The fields of \<^verbatim>\<open>StickyCode\<close>. \<open>executionCount\<close> is the private \<^verbatim>\<open>_executionCount\<close>;
  an observer is \<open>True\<close> while it observes a node; \<open>toggle_isDisposed\<close> is the
  \<^verbatim>\<open>isDisposed\<close> of the \<^verbatim>\<open>Switch\<close>; \<open>floatingWindow\<close> is a reference into
  \<open>floatingWindows\<close>; \<open>editor_hasFocus\<close> is the focus that \<^verbatim>\<open>cell.editor.blur()\<close> takes away.
\<close>

record StickyCode =
  stickyContent :: nat
  originalCell :: nat
  editor_hasFocus :: bool
  executionCount :: "nat option"
  executionCounter :: Element
  toggle_value :: bool
  toggle_isDisposed :: bool
  codeObserver :: bool
  outputObserver :: bool
  autoRun :: bool
  autoRunTimeout :: "nat option"
  isDisposed :: bool
  isFloating :: bool
  floatingWindow :: "nat option"

text \<open>
  A panel (\<^verbatim>\<open>StickyContent\<close>): the child nodes of its wrapper, header and content nodes, and
  whether it shows the dropzone.
\<close>

record StickyContent =
  wrapperNode :: "elem list"
  headerNode :: "elem list"
  contentNode :: "elem list"
  dropzoneShown :: bool

text \<open>\<open>windowNode\<close>: the containers appended to the window's node, each with its children.\<close>

record FloatingWindow =
  cellType :: ContentType
  stickyCell :: nat
  floatIndex :: nat
  windowNode :: "elem list list"

record timer =
  tid :: nat
  due :: nat
  owner :: nat

record world =
  cells :: "nat \<Rightarrow> CodeCell"
  notebook :: Notebook
  mirrors :: "StickyCode list"
  contents :: "nat \<Rightarrow> StickyContent"
  floatingWindows :: "FloatingWindow list"
  now :: nat
  timers :: "timer list"
  nextTimer :: nat

text \<open>
  The error taxonomy of the specification. No statement of \<^verbatim>\<open>code.ts\<close> raises any of them:
  the factory below returns \<open>Inr\<close> on every input.
\<close>

datatype error = DuplicateMirrorError | DetachedNodeError | MissingHostCapability

definition upd :: "nat \<Rightarrow> (StickyCode \<Rightarrow> StickyCode) \<Rightarrow> world \<Rightarrow> world" where
  "upd r f w = w\<lparr>mirrors := (mirrors w)[r := f (mirrors w ! r)]\<rparr>"

definition upd_cell :: "nat \<Rightarrow> (CodeCell \<Rightarrow> CodeCell) \<Rightarrow> world \<Rightarrow> world" where
  "upd_cell c f w = w\<lparr>cells := (cells w)(c := f (cells w c))\<rparr>"

definition upd_content :: "nat \<Rightarrow> (StickyContent \<Rightarrow> StickyContent) \<Rightarrow> world \<Rightarrow> world" where
  "upd_content sc f w = w\<lparr>contents := (contents w)(sc := f (contents w sc))\<rparr>"

section \<open>The execution counter\<close>

text \<open>The template literal \<^verbatim>\<open>`[${newCount}]`\<close> prints a count in decimal.\<close>

definition digit_char :: "nat \<Rightarrow> char" where
  "digit_char d = ''0123456789'' ! (d mod 10)"

fun string_of_nat :: "nat \<Rightarrow> string" where
  "string_of_nat n =
     (if n < 10 then [digit_char n] else string_of_nat (n div 10) @ [digit_char (n mod 10)])"



text \<open>The setter \<^verbatim>\<open>set executionCount(newCount)\<close>.\<close>

definition set_executionCount :: "nat option \<Rightarrow> StickyCode \<Rightarrow> StickyCode" where
  "set_executionCount newCount cd =
     (let cd1 = cd\<lparr>executionCount := newCount\<rparr>
      in case newCount of
           Some n \<Rightarrow>
             cd1\<lparr>executionCounter :=
               (executionCounter cd1)\<lparr>innerText := ''['' @ string_of_nat n @ '']''\<rparr>\<rparr>
         | None \<Rightarrow>
             cd1\<lparr>executionCounter := (executionCounter cd1)\<lparr>innerText := ''[*]''\<rparr>\<rparr>)"

section \<open>The synchronization bridge\<close>

datatype jsvalue = JNull | JBool bool | JNumber nat | JString string

fun truthy :: "jsvalue \<Rightarrow> bool" where
  "truthy JNull = False"
| "truthy (JBool b) = b"
| "truthy (JNumber n) = (n \<noteq> 0)"
| "truthy (JString s) = (s \<noteq> [])"

record IChangedArgs =
  name :: string
  oldValue :: jsvalue
  newValue :: jsvalue

text \<open>\<^verbatim>\<open>handleStateChange(model, args)\<close>, a \<^verbatim>\<open>switch\<close> on \<^verbatim>\<open>args.name\<close>.\<close>

definition handleStateChange :: "ICodeCellModel \<Rightarrow> IChangedArgs \<Rightarrow> nat \<Rightarrow> world \<Rightarrow> world" where
  "handleStateChange codeModel args r w =
     (if name args = ''executionCount'' then
        (let w1 = upd r (set_executionCount (model_executionCount codeModel)) w;
             oc = originalCell (mirrors w1 ! r)
         in if inputHidden (cells w1 oc)
            then upd_cell oc (\<lambda>c. c\<lparr>outputHidden := True\<rparr>) w1
            else w1)
      else if name args = ''isDirty'' then
        (if truthy (newValue args)
         then upd r (\<lambda>cd. cd\<lparr>executionCounter :=
                (executionCounter cd)\<lparr>classList := insert ''dirty'' (classList (executionCounter cd))\<rparr>\<rparr>) w
         else upd r (\<lambda>cd. cd\<lparr>executionCounter :=
                (executionCounter cd)\<lparr>classList := classList (executionCounter cd) - {''dirty''}\<rparr>\<rparr>) w)
      else w)"

section \<open>The mirror factory\<close>

text \<open>
  Modelled from the spec: \<^verbatim>\<open>StickyContent.showDropzone\<close> (\<^verbatim>\<open>content.ts\<close> is not among the
  sources). On mirror close the panel area is handed back to the empty-state widget.
\<close>

definition showDropzone :: "nat \<Rightarrow> world \<Rightarrow> world" where
  "showDropzone sc w = upd_content sc (\<lambda>p. p\<lparr>dropzoneShown := True\<rparr>) w"

text \<open>
  \<^verbatim>\<open>createToolbar\<close>: the parts of it that leave state behind are the \<^verbatim>\<open>Switch\<close>, whose
  value is set from \<^verbatim>\<open>autoRun\<close>, and the execution counter element with its class.
\<close>

definition createToolbar :: "StickyCode \<Rightarrow> StickyCode" where
  "createToolbar cd =
     cd\<lparr>toggle_value := autoRun cd, toggle_isDisposed := False,
        executionCounter := \<lparr>innerText = [], classList = {''execution-counter''}\<rparr>\<rparr>"

text \<open>
  The field initialisers of the class: what \<^verbatim>\<open>new StickyCode()\<close> returns. The fields
  declared with \<^verbatim>\<open>!\<close> have no initialiser; the factory assigns them before anything
  reads them, and here they start from a default.
\<close>

definition new_StickyCode :: StickyCode where
  "new_StickyCode =
     \<lparr>stickyContent = 0, originalCell = 0, editor_hasFocus = False, executionCount = None,
      executionCounter = \<lparr>innerText = [], classList = {}\<rparr>,
      toggle_value = False, toggle_isDisposed = False,
      codeObserver = False, outputObserver = False,
      autoRun = False, autoRunTimeout = None, isDisposed = False,
      isFloating = False, floatingWindow = None\<rparr>"

text \<open>
  \<^verbatim>\<open>createFromExistingCell(stickyContent, cell, notebook)\<close>. The source has no check for
  an existing mirror of \<^verbatim>\<open>cell\<close> and no \<^verbatim>\<open>throw\<close>. In the order of the source: the
  original cell is collapsed, the mirror's node is appended to the panel's content node and
  its toolbar to the header node, the counter is set from the model, and each observer
  observes when its node is found in the clone, which has the structure of the cell it
  clones. The new object's reference is the next free index.
\<close>

definition createFromExistingCell :: "nat \<Rightarrow> nat \<Rightarrow> world \<Rightarrow> error + (nat \<times> world)" where
  "createFromExistingCell sc c w =
     (let r = length (mirrors w);
          cd = new_StickyCode\<lparr>stickyContent := sc, originalCell := c\<rparr>;
          w1 = upd_cell c (\<lambda>x. x\<lparr>inputHidden := True\<rparr>) w;
          w2 = upd_cell c (\<lambda>x. x\<lparr>outputHidden := True\<rparr>) w1;
          w3 = upd_content sc (\<lambda>p. p\<lparr>contentNode := contentNode p @ [CodeNode r]\<rparr>) w2;
          cd1 = createToolbar cd;
          w4 = upd_content sc (\<lambda>p. p\<lparr>headerNode := headerNode p @ [CodeToolbar r]\<rparr>) w3;
          cd2 = set_executionCount (model_executionCount (model (cells w4 c))) cd1;
          cd3 = cd2\<lparr>codeObserver := has_editorNode (cells w4 c)\<rparr>;
          cd4 = cd3\<lparr>outputObserver := has_outputNode (cells w4 c)\<rparr>
      in Inr (r, w4\<lparr>mirrors := mirrors w4 @ [cd4]\<rparr>))"

text \<open>The live mirrors of a canonical cell.\<close>

definition live_mirrors_of :: "nat \<Rightarrow> world \<Rightarrow> StickyCode list" where
  "live_mirrors_of c w = filter (\<lambda>m. originalCell m = c \<and> \<not> isDisposed m) (mirrors w)"

section \<open>Execution\<close>

text \<open>\<^verbatim>\<open>ArrayExt.findFirstIndex\<close>: the index of the first match, \<open>-1\<close> when there is none.\<close>

fun findFirstIndex :: "'a list \<Rightarrow> ('a \<Rightarrow> bool) \<Rightarrow> int" where
  "findFirstIndex [] p = -1"
| "findFirstIndex (x # xs) p =
     (if p x then 0
      else (let i = findFirstIndex xs p in if i < 0 then -1 else i + 1))"

text \<open>\<^verbatim>\<open>NotebookActions.run\<close> runs the active cell; the model records which.\<close>

definition NotebookActions_run :: "Notebook \<Rightarrow> Notebook" where
  "NotebookActions_run nb = nb\<lparr>runLog := runLog nb @ [activeCellIndex nb]\<rparr>"

text \<open>\<^verbatim>\<open>execute(restoreActiveCell = false)\<close>.\<close>

definition execute :: "bool \<Rightarrow> nat \<Rightarrow> world \<Rightarrow> world" where
  "execute restoreActiveCell r w =
     (let restoreActiveCellIndex = activeCellIndex (notebook w);
          cellIndex = findFirstIndex (widgets (notebook w))
                        (\<lambda>widget. widget = originalCell (mirrors w ! r));
          w1 = w\<lparr>notebook := (notebook w)\<lparr>activeCellIndex := cellIndex\<rparr>\<rparr>;
          w2 = upd r (\<lambda>cd. cd\<lparr>editor_hasFocus := False\<rparr>) w1;
          w3 = w2\<lparr>notebook := NotebookActions_run (notebook w2)\<rparr>
      in if restoreActiveCell
         then w3\<lparr>notebook := (notebook w3)\<lparr>activeCellIndex := restoreActiveCellIndex\<rparr>\<rparr>
         else w3)"

section \<open>The execution scheduler\<close>







section \<open>The dock/float state machine\<close>

text \<open>
  Modelled from the spec: the constructor of \<^verbatim>\<open>FloatingWindow\<close> (\<^verbatim>\<open>floating.ts\<close> is not
  among the sources). It constructs a floating container tagged with the index and the
  content kind, and the container counts from then on among the windows already floating
  (\<^verbatim>\<open>stickyLand.floatingWindows\<close>).
\<close>

definition new_FloatingWindow :: "ContentType \<Rightarrow> nat \<Rightarrow> nat \<Rightarrow> world \<Rightarrow> nat \<times> world" where
  "new_FloatingWindow ct cd idx w =
     (length (floatingWindows w),
      w\<lparr>floatingWindows := floatingWindows w @
           [\<lparr>cellType = ct, stickyCell = cd, floatIndex = idx, windowNode = []\<rparr>]\<rparr>)"

text \<open>
  \<^verbatim>\<open>float()\<close>. The \<^verbatim>\<open>forEach\<close> over \<^verbatim>\<open>floatingWindows\<close> is a fold that increments
  \<^verbatim>\<open>floatIndex\<close>; \<^verbatim>\<open>floatingContent.append(...wrapperNode.childNodes)\<close> moves the children
  of the wrapper, which leaves the wrapper empty.
\<close>

definition float :: "nat \<Rightarrow> world \<Rightarrow> world" where
  "float r w =
     (let idx = (if length (floatingWindows w) \<noteq> 0
                 then fold (\<lambda>d i. if cellType d = Code then i + 1 else i) (floatingWindows w) 1
                 else 1);
          (fw, w1) = new_FloatingWindow Code r idx w;
          w2 = upd r (\<lambda>cd. cd\<lparr>floatingWindow := Some fw\<rparr>) w1;
          sc = stickyContent (mirrors w2 ! r);
          floatingContent = wrapperNode (contents w2 sc);
          w3 = upd_content sc (\<lambda>p. p\<lparr>wrapperNode := []\<rparr>) w2;
          w4 = w3\<lparr>floatingWindows := (floatingWindows w3)
                 [fw := (floatingWindows w3 ! fw)
                    \<lparr>windowNode := windowNode (floatingWindows w3 ! fw) @ [floatingContent]\<rparr>]\<rparr>
      in upd r (\<lambda>cd. cd\<lparr>isFloating := True\<rparr>) w4)"

text \<open>\<^verbatim>\<open>land()\<close>: the body of the source is the comment \<^verbatim>\<open>// Put back the nodes\<close>.\<close>

definition land :: "nat \<Rightarrow> world \<Rightarrow> world" where
  "land r w = w"

text \<open>The stacking index of the floating window of the mirror \<open>r\<close>.\<close>

definition floatIndex_of :: "nat \<Rightarrow> world \<Rightarrow> nat option" where
  "floatIndex_of r w =
     (case floatingWindow (mirrors w ! r) of
        None \<Rightarrow> None
      | Some fw \<Rightarrow> Some (floatIndex (floatingWindows w ! fw)))"

section \<open>Disposal\<close>

text \<open>
  \<^verbatim>\<open>dispose()\<close>: \<^verbatim>\<open>codeObserver.disconnect()\<close>, \<^verbatim>\<open>toggle.dispose()\<close>, \<^verbatim>\<open>node.remove()\<close>,
  \<^verbatim>\<open>toolbar.remove()\<close>, \<^verbatim>\<open>isDisposed = true\<close>. The node and the toolbar are children of
  the content and header nodes of the mirror's panel, where the factory appended them.
\<close>

definition dispose :: "nat \<Rightarrow> world \<Rightarrow> world" where
  "dispose r w =
     (let w1 = upd r (\<lambda>cd. cd\<lparr>codeObserver := False\<rparr>) w;
          w2 = upd r (\<lambda>cd. cd\<lparr>toggle_isDisposed := True\<rparr>) w1;
          sc = stickyContent (mirrors w2 ! r);
          w3 = upd_content sc (\<lambda>p. p\<lparr>contentNode := removeAll (CodeNode r) (contentNode p)\<rparr>) w2;
          w4 = upd_content sc (\<lambda>p. p\<lparr>headerNode := removeAll (CodeToolbar r) (headerNode p)\<rparr>) w3
      in upd r (\<lambda>cd. cd\<lparr>isDisposed := True\<rparr>) w4)"

section \<open>The command surface\<close>

record Event =
  defaultPrevented :: bool
  propagationStopped :: bool


definition preventDefault :: "'a Event_scheme \<Rightarrow> 'a Event_scheme" where
  "preventDefault e = e\<lparr>defaultPrevented := True\<rparr>"

definition stopPropagation :: "'a Event_scheme \<Rightarrow> 'a Event_scheme" where
  "stopPropagation e = e\<lparr>propagationStopped := True\<rparr>"

text \<open>The handler of the switch's \<^verbatim>\<open>valueChanged\<close> signal.\<close>

definition valueChanged :: "bool \<Rightarrow> nat \<Rightarrow> world \<Rightarrow> world" where
  "valueChanged v r w = upd r (\<lambda>cd. cd\<lparr>autoRun := v\<rparr>) w"

definition runClicked :: "Event \<Rightarrow> nat \<Rightarrow> world \<Rightarrow> Event \<times> world" where
  "runClicked event r w = (stopPropagation (preventDefault event), execute False r w)"

definition launchClicked :: "Event \<Rightarrow> nat \<Rightarrow> world \<Rightarrow> Event \<times> world" where
  "launchClicked event r w = (stopPropagation (preventDefault event), float r w)"

text \<open>
  \<^verbatim>\<open>closeClicked\<close>: the original cell is shown again, the panel shows the dropzone, the
  mirror is disposed. \<open>closeClicked_shown\<close> is the world after the first two and before the
  third.
\<close>

definition closeClicked_shown :: "nat \<Rightarrow> world \<Rightarrow> world" where
  "closeClicked_shown r w =
     (let oc = originalCell (mirrors w ! r);
          w1 = upd_cell oc (\<lambda>x. x\<lparr>inputHidden := False\<rparr>) w;
          w2 = upd_cell oc (\<lambda>x. x\<lparr>outputHidden := False\<rparr>) w1
      in showDropzone (stickyContent (mirrors w2 ! r)) w2)"

definition closeClicked :: "Event \<Rightarrow> nat \<Rightarrow> world \<Rightarrow> Event \<times> world" where
  "closeClicked event r w =
     (stopPropagation (preventDefault event), dispose r (closeClicked_shown r w))"


section \<open>Sample worlds\<close>

text \<open>
  A notebook of three cells, the third active, with empty panels; then the same notebook
  after cell 1 was mirrored into panel 0, and after the mirror's auto-run was switched on.
\<close>

definition sample_cell :: CodeCell where
  "sample_cell =
     \<lparr>model = \<lparr>model_executionCount = Some 3, isDirty = False\<rparr>,
      inputHidden = False, outputHidden = False,
      has_editorNode = True, has_outputNode = True\<rparr>"

definition sample_world :: world where
  "sample_world =
     \<lparr>cells = (\<lambda>c. sample_cell),
      notebook = \<lparr>widgets = [0, 1, 2], activeCellIndex = 2, runLog = []\<rparr>,
      mirrors = [],
      contents = (\<lambda>p. \<lparr>wrapperNode = [HeaderNode p, ContentNode p], headerNode = [],
                        contentNode = [], dropzoneShown = False\<rparr>),
      floatingWindows = [], now = 0, timers = [], nextTimer = 0\<rparr>"

definition created :: "error + (nat \<times> world) \<Rightarrow> world" where
  "created res = (case res of Inr (r, w) \<Rightarrow> w | Inl e \<Rightarrow> sample_world)"

definition mirrored_world :: world where
  "mirrored_world = created (createFromExistingCell 0 1 sample_world)"

definition autorun_world :: world where
  "autorun_world = valueChanged True 0 mirrored_world"

definition two_mirrors_world :: world where
  "two_mirrors_world = created (createFromExistingCell 1 2 mirrored_world)"

text \<open>
  The host redraws the output of the mirrored cell, which makes it visible again; the model
  change that follows reports a pending count.
\<close>

definition redrawn_world :: world where
  "redrawn_world = upd_cell 1 (\<lambda>x. x\<lparr>outputHidden := False\<rparr>) mirrored_world"

definition count_pending :: ICodeCellModel where
  "count_pending = \<lparr>model_executionCount = None, isDirty = False\<rparr>"

definition count_changed :: IChangedArgs where
  "count_changed = \<lparr>name = ''executionCount'', oldValue = JNumber 3, newValue = JNull\<rparr>"




section \<open>Notions the claims are stated with\<close>

text \<open>The number of floating windows of content kind \<open>Code\<close>.\<close>

definition code_windows :: "world \<Rightarrow> nat" where
  "code_windows w = length (filter (\<lambda>d. cellType d = Code) (floatingWindows w))"




section \<open>Facts about the model\<close>

lemmas model_defs = upd_def upd_cell_def upd_content_def Let_def

lemmas sample_defs = sample_world_def sample_cell_def created_def mirrored_world_def
  autorun_world_def two_mirrors_world_def createFromExistingCell_def new_StickyCode_def
  createToolbar_def valueChanged_def

lemma set_executionCount_other [simp]:
  "stickyContent (set_executionCount n cd) = stickyContent cd"
  "originalCell (set_executionCount n cd) = originalCell cd"
  "isDisposed (set_executionCount n cd) = isDisposed cd"
  "isFloating (set_executionCount n cd) = isFloating cd"
  "autoRun (set_executionCount n cd) = autoRun cd"
  "autoRunTimeout (set_executionCount n cd) = autoRunTimeout cd"
  "codeObserver (set_executionCount n cd) = codeObserver cd"
  "outputObserver (set_executionCount n cd) = outputObserver cd"
  "toggle_isDisposed (set_executionCount n cd) = toggle_isDisposed cd"
  "floatingWindow (set_executionCount n cd) = floatingWindow cd"
  by (cases n; simp add: set_executionCount_def)+

lemma createToolbar_other [simp]:
  "stickyContent (createToolbar cd) = stickyContent cd"
  "originalCell (createToolbar cd) = originalCell cd"
  "isDisposed (createToolbar cd) = isDisposed cd"
  "isFloating (createToolbar cd) = isFloating cd"
  "autoRun (createToolbar cd) = autoRun cd"
  "autoRunTimeout (createToolbar cd) = autoRunTimeout cd"
  "codeObserver (createToolbar cd) = codeObserver cd"
  "outputObserver (createToolbar cd) = outputObserver cd"
  "floatingWindow (createToolbar cd) = floatingWindow cd"
  "toggle_isDisposed (createToolbar cd) = False"
  by (simp_all add: createToolbar_def)

subsection \<open>The sample worlds, evaluated\<close>

lemma mirrored_world_mirrors:
  "length (mirrors mirrored_world) = 1"
  "originalCell (mirrors mirrored_world ! 0) = 1"
  "stickyContent (mirrors mirrored_world ! 0) = 0"
  "\<not> isDisposed (mirrors mirrored_world ! 0)"
  "\<not> isFloating (mirrors mirrored_world ! 0)"
  "codeObserver (mirrors mirrored_world ! 0)"
  "outputObserver (mirrors mirrored_world ! 0)"
  "\<not> autoRun (mirrors mirrored_world ! 0)"
  "autoRunTimeout (mirrors mirrored_world ! 0) = None"
  by (simp_all add: sample_defs model_defs)

lemma mirrored_world_host:
  "inputHidden (cells mirrored_world 1)"
  "outputHidden (cells mirrored_world 1)"
  "notebook mirrored_world = \<lparr>widgets = [0, 1, 2], activeCellIndex = 2, runLog = []\<rparr>"
  "timers mirrored_world = []"
  "floatingWindows mirrored_world = []"
  "wrapperNode (contents mirrored_world 0) = [HeaderNode 0, ContentNode 0]"
  "contentNode (contents mirrored_world 0) = [CodeNode 0]"
  "headerNode (contents mirrored_world 0) = [CodeToolbar 0]"
  by (simp_all add: sample_defs model_defs)



lemma two_mirrors_world_facts:
  "length (mirrors two_mirrors_world) = 2"
  "floatingWindows two_mirrors_world = []"
  by (simp_all add: sample_defs model_defs)

subsection \<open>Decimal rendering\<close>




subsection \<open>Disposal\<close>

lemma dispose_twice: "r < length (mirrors w) \<Longrightarrow> dispose r (dispose r w) = dispose r w"
  by (simp add: dispose_def model_defs)

lemma dispose_outputObserver:
  "r < length (mirrors w) \<Longrightarrow>
     outputObserver (mirrors (dispose r w) ! r) = outputObserver (mirrors w ! r)"
  by (simp add: dispose_def model_defs)

subsection \<open>Floating\<close>

lemma land_noop: "land r w = w"
  by (simp add: land_def)

lemma fold_count_Code:
  "fold (\<lambda>d i. if cellType d = Code then i + 1 else i) ws k =
     k + length (filter (\<lambda>d. cellType d = Code) ws)"
  by (induction ws arbitrary: k) simp_all

lemma float_index:
  assumes "r < length (mirrors w)"
  shows "floatIndex_of r (float r w) = Some (1 + code_windows w)"
  using assms
  by (simp add: float_def floatIndex_of_def new_FloatingWindow_def model_defs fold_count_Code
      nth_append code_windows_def)

lemma float_length: "length (mirrors (float r w)) = length (mirrors w)"
  by (simp add: float_def new_FloatingWindow_def model_defs)

lemma float_code_windows: "code_windows (float r w) = Suc (code_windows w)"
  by (simp add: float_def new_FloatingWindow_def model_defs code_windows_def nth_append
      list_update_append)

subsection \<open>Execution\<close>




subsection \<open>The scheduler\<close>









section \<open>The claims\<close>

text \<open>
  C1, as the code has it. The factory has no duplicate check and raises nothing: for every
  canonical cell, mirrored already or not, it returns a new live mirror of that cell under
  a fresh reference, leaves every existing mirror as it was, and hides the cell's input and
  output; the cell then has one live mirror more than before.
\<close>

theorem createFromExistingCell_adds_a_mirror:
  "\<exists>w'. createFromExistingCell sc c w = Inr (length (mirrors w), w') \<and>
     length (mirrors w') = Suc (length (mirrors w)) \<and>
     take (length (mirrors w)) (mirrors w') = mirrors w \<and>
     originalCell (mirrors w' ! length (mirrors w)) = c \<and>
     \<not> isDisposed (mirrors w' ! length (mirrors w)) \<and>
     inputHidden (cells w' c) \<and> outputHidden (cells w' c) \<and>
     length (live_mirrors_of c w') = Suc (length (live_mirrors_of c w))"
  by (simp add: createFromExistingCell_def model_defs live_mirrors_of_def new_StickyCode_def)

text \<open>
  C1, as the claim states it, fails: cell 1 has one live mirror, the factory called on it
  again does not raise \<open>DuplicateMirrorError\<close>, and afterwards the cell has two live
  mirrors.
\<close>

theorem createFromExistingCell_duplicate_counterexample:
  "length (live_mirrors_of 1 mirrored_world) = 1 \<and>
   createFromExistingCell 0 1 mirrored_world \<noteq> Inl DuplicateMirrorError \<and>
   length (live_mirrors_of 1 (created (createFromExistingCell 0 1 mirrored_world))) = 2"
  by (simp add: live_mirrors_of_def sample_defs model_defs)

text \<open>
  C2. Creating a mirror of a canonical cell hides the cell's input and output; closing that
  mirror makes both visible again, and they are already visible, the mirror not yet
  disposed, in the world that \<open>dispose\<close> is then called in.
\<close>

theorem close_after_create_restores_visibility:
  "\<exists>r w1. createFromExistingCell sc c w = Inr (r, w1) \<and>
     originalCell (mirrors w1 ! r) = c \<and> \<not> isDisposed (mirrors w1 ! r) \<and>
     inputHidden (cells w1 c) \<and> outputHidden (cells w1 c) \<and>
     \<not> inputHidden (cells (closeClicked_shown r w1) c) \<and>
     \<not> outputHidden (cells (closeClicked_shown r w1) c) \<and>
     \<not> isDisposed (mirrors (closeClicked_shown r w1) ! r) \<and>
     snd (closeClicked ev r w1) = dispose r (closeClicked_shown r w1) \<and>
     isDisposed (mirrors (snd (closeClicked ev r w1)) ! r) \<and>
     \<not> inputHidden (cells (snd (closeClicked ev r w1)) c) \<and>
     \<not> outputHidden (cells (snd (closeClicked ev r w1)) c)"
  by (simp add: createFromExistingCell_def closeClicked_def closeClicked_shown_def
      showDropzone_def dispose_def model_defs nth_append new_StickyCode_def)



text \<open>
  C4, at a docked mirror: after \<open>float\<close> and then \<open>land\<close> the mirror is still flagged as
  floating, the wrapper of its panel is empty and its former children sit in the floating
  window. \<open>land\<close> does not bring the subtree back.
\<close>

theorem land_after_float_stays_floating:
  "\<not> isFloating (mirrors mirrored_world ! 0) \<and>
   wrapperNode (contents mirrored_world 0) = [HeaderNode 0, ContentNode 0] \<and>
   isFloating (mirrors (land 0 (float 0 mirrored_world)) ! 0) \<and>
   wrapperNode (contents (land 0 (float 0 mirrored_world)) 0) = [] \<and>
   map windowNode (floatingWindows (land 0 (float 0 mirrored_world))) =
     [[[HeaderNode 0, ContentNode 0]]]"
  using mirrored_world_mirrors mirrored_world_host
  by (simp add: land_def float_def new_FloatingWindow_def model_defs)

text \<open>
  C5, at a live mirror whose output watcher observes: \<open>dispose\<close> disconnects the focus
  watcher, disposes the toggle, removes the root node and the toolbar node and marks the
  mirror disposed, and a second call changes nothing; the output watcher still observes
  afterwards.
\<close>

theorem dispose_leaves_output_observer:
  "outputObserver (mirrors mirrored_world ! 0) \<and>
   outputObserver (mirrors (dispose 0 mirrored_world) ! 0) \<and>
   \<not> codeObserver (mirrors (dispose 0 mirrored_world) ! 0) \<and>
   toggle_isDisposed (mirrors (dispose 0 mirrored_world) ! 0) \<and>
   contentNode (contents (dispose 0 mirrored_world) 0) = [] \<and>
   headerNode (contents (dispose 0 mirrored_world) 0) = [] \<and>
   isDisposed (mirrors (dispose 0 mirrored_world) ! 0) \<and>
   dispose 0 (dispose 0 mirrored_world) = dispose 0 mirrored_world"
  using mirrored_world_mirrors mirrored_world_host
  by (simp add: dispose_twice) (simp add: dispose_def model_defs)


text \<open>
  C7. When the bridge handles an execution-count change while the canonical cell's input
  is hidden, the canonical cell's output is hidden afterwards (and its input still is).
\<close>

theorem handleStateChange_output_stays_hidden:
  assumes "r < length (mirrors w)"
    and "name args = ''executionCount''"
    and "inputHidden (cells w (originalCell (mirrors w ! r)))"
  shows "originalCell (mirrors (handleStateChange m args r w) ! r) = originalCell (mirrors w ! r) \<and>
         inputHidden (cells (handleStateChange m args r w) (originalCell (mirrors w ! r))) \<and>
         outputHidden (cells (handleStateChange m args r w) (originalCell (mirrors w ! r)))"
  using assms
  by (simp add: handleStateChange_def model_defs)

theorem handleStateChange_output_stays_hidden_witness:
  "0 < length (mirrors redrawn_world) \<and> name count_changed = ''executionCount'' \<and>
   inputHidden (cells redrawn_world 1) \<and> \<not> outputHidden (cells redrawn_world 1) \<and>
   outputHidden (cells (handleStateChange count_pending count_changed 0 redrawn_world) 1)"
proof -
  have m: "mirrors redrawn_world = mirrors mirrored_world"
    by (simp add: redrawn_world_def upd_cell_def)
  have a: "0 < length (mirrors redrawn_world)"
    by (simp add: m mirrored_world_mirrors)
  have b: "name count_changed = ''executionCount''"
    by (simp add: count_changed_def)
  have o: "originalCell (mirrors redrawn_world ! 0) = 1"
    by (simp add: m mirrored_world_mirrors)
  have c: "inputHidden (cells redrawn_world (originalCell (mirrors redrawn_world ! 0)))"
    unfolding o using mirrored_world_host by (simp add: redrawn_world_def upd_cell_def)
  have d: "\<not> outputHidden (cells redrawn_world 1)"
    by (simp add: redrawn_world_def upd_cell_def)
  from handleStateChange_output_stays_hidden [OF a b c, of count_pending] a b c d o
  show ?thesis by simp
qed

text \<open>
  C8. The floating window that \<open>float\<close> creates for a mirror carries the stacking index
  one plus the number of windows of kind \<open>Code\<close> already floating. When another mirror
  floats next, its index is greater by one, and the first mirror's index stays.
\<close>

theorem float_stacking_index:
  assumes "r < length (mirrors w)"
  shows "floatIndex_of r (float r w) = Some (1 + code_windows w) \<and>
     (\<forall>r2. r2 < length (mirrors w) \<and> r2 \<noteq> r \<longrightarrow>
        floatIndex_of r2 (float r2 (float r w)) = Some (2 + code_windows w) \<and>
        floatIndex_of r (float r2 (float r w)) = Some (1 + code_windows w))"
proof (intro conjI allI impI)
  show "floatIndex_of r (float r w) = Some (1 + code_windows w)"
    using assms by (rule float_index)
next
  fix r2 assume h: "r2 < length (mirrors w) \<and> r2 \<noteq> r"
  then have "r2 < length (mirrors (float r w))" by (simp add: float_length)
  then show "floatIndex_of r2 (float r2 (float r w)) = Some (2 + code_windows w)"
    by (simp add: float_index float_code_windows)
  show "floatIndex_of r (float r2 (float r w)) = Some (1 + code_windows w)"
    using assms h
    by (simp add: float_def floatIndex_of_def new_FloatingWindow_def model_defs fold_count_Code
      nth_append code_windows_def)
qed

theorem float_stacking_index_witness:
  "(0::nat) < length (mirrors two_mirrors_world) \<and> (1::nat) < length (mirrors two_mirrors_world) \<and>
   floatIndex_of 0 (float 0 two_mirrors_world) = Some 1 \<and>
   floatIndex_of 1 (float 1 (float 0 two_mirrors_world)) = Some 2 \<and>
   floatIndex_of 0 (float 1 (float 0 two_mirrors_world)) = Some 1"
proof -
  have a: "(0::nat) < length (mirrors two_mirrors_world)"
    and b: "(1::nat) < length (mirrors two_mirrors_world)"
    by (simp_all add: two_mirrors_world_facts)
  have c: "code_windows two_mirrors_world = 0"
    by (simp add: code_windows_def two_mirrors_world_facts)
  from float_stacking_index [OF a] a b c show ?thesis by simp
qed






end
